theory Spec2Isabelle
  imports Main "HOL-Library.AList"
begin

unbundle bit_operations_syntax

section \<open>File manager: the command dispatcher of \<open>src/index.js\<close>\<close>

text \<open>
  The program is one function, \<open>handleCommand\<close>, run once per input line over two
  pieces of state: the module variable \<open>currentDir\<close> and the filesystem. The model
  threads both through a record, together with what was printed and whether the
  process is still alive. Exceptions are values; the callbacks that Node runs after
  \<open>handleCommand\<close> has returned are a separate phase of the same cycle.

  The platform functions the source calls (\<open>path\<close>, \<open>fs\<close>, streams, \<open>crypto\<close>) are
  modelled for POSIX, at the level of detail the dispatcher observes.
\<close>

subsection \<open>Strings: \<open>trim\<close>, \<open>split\<close>, \<open>startsWith\<close>\<close>

definition isSpace :: "char \<Rightarrow> bool" where
  \<comment> \<open>the ASCII part of what \<open>String.prototype.trim\<close> strips\<close>
  "isSpace c = (c \<in> set [CHR '' '', CHR 0x09, CHR 0x0A, CHR 0x0B, CHR 0x0C, CHR 0x0D])"

definition trim :: "string \<Rightarrow> string" where
  "trim s = rev (dropWhile isSpace (rev (dropWhile isSpace s)))"

fun split :: "char \<Rightarrow> string \<Rightarrow> string list" where
  \<comment> \<open>\<open>s.split(d)\<close>: never empty, \<open>''''.split(d)\<close> is \<open>['''']\<close>\<close>
  "split d [] = [[]]"
| "split d (c # cs) =
     (if c = d then [] # split d cs
      else (case split d cs of [] \<Rightarrow> [[c]] | s # ss \<Rightarrow> (c # s) # ss))"

definition tokens :: "string \<Rightarrow> string list" where
  \<comment> \<open>\<open>input.trim().split(' ').filter(Boolean)\<close>\<close>
  "tokens input = filter (\<lambda>t. t \<noteq> []) (split (CHR '' '') (trim input))"

definition startsWith :: "string \<Rightarrow> string \<Rightarrow> bool" where
  "startsWith s p = (take (length p) s = p)"

fun intercalate :: "string \<Rightarrow> string list \<Rightarrow> string" where
  "intercalate sep [] = []"
| "intercalate sep [s] = s"
| "intercalate sep (s # t # ts) = s @ sep @ intercalate sep (t # ts)"

subsection \<open>Paths: Node's \<open>path.posix\<close>\<close>

definition isAbsolute :: "string \<Rightarrow> bool" where
  "isAbsolute p = (case p of [] \<Rightarrow> False | c # _ \<Rightarrow> c = CHR ''/'')"

definition endsWithSlash :: "string \<Rightarrow> bool" where
  "endsWithSlash p = (case rev p of [] \<Rightarrow> False | c # _ \<Rightarrow> c = CHR ''/'')"

text \<open>
  \<open>normalizeString\<close> walks the segments between slashes: empty segments and \<open>.\<close> are
  dropped, \<open>..\<close> removes the segment before it, and is kept only when the path is
  relative (\<open>allowAboveRoot\<close>) and nothing is left to remove. The accumulator holds
  the segments kept so far, last one first.
\<close>

fun normalizeSegs :: "bool \<Rightarrow> string list \<Rightarrow> string list \<Rightarrow> string list" where
  "normalizeSegs allowAboveRoot acc [] = rev acc"
| "normalizeSegs allowAboveRoot acc (s # ss) =
     (if s = [] \<or> s = ''.'' then normalizeSegs allowAboveRoot acc ss
      else if s = ''..'' then
        (case acc of
           [] \<Rightarrow> normalizeSegs allowAboveRoot (if allowAboveRoot then [''..''] else []) ss
         | t # ts \<Rightarrow>
             if t = ''..'' then
               normalizeSegs allowAboveRoot (if allowAboveRoot then s # acc else acc) ss
             else normalizeSegs allowAboveRoot ts ss)
      else normalizeSegs allowAboveRoot (s # acc) ss)"

definition normalizeString :: "string \<Rightarrow> bool \<Rightarrow> string" where
  "normalizeString p allowAboveRoot =
     intercalate ''/'' (normalizeSegs allowAboveRoot [] (split (CHR ''/'') p))"

text \<open>
  \<open>path.resolve(...args)\<close> reads its arguments from the right until one is absolute,
  falling back on the process's working directory.
\<close>

fun resolveLoop :: "string list \<Rightarrow> string \<Rightarrow> string \<times> bool" where
  "resolveLoop [] resolvedPath = (resolvedPath, False)"
| "resolveLoop (p # ps) resolvedPath =
     (if p = [] then resolveLoop ps resolvedPath
      else if isAbsolute p then (p @ ''/'' @ resolvedPath, True)
      else resolveLoop ps (p @ ''/'' @ resolvedPath))"

definition resolve :: "string \<Rightarrow> string list \<Rightarrow> string" where
  "resolve cwd args =
     (case resolveLoop (rev args @ [cwd]) [] of
        (resolvedPath, resolvedAbsolute) \<Rightarrow>
          (let r = normalizeString resolvedPath (\<not> resolvedAbsolute)
           in if resolvedAbsolute then ''/'' @ r
              else if r \<noteq> [] then r else ''.''))"

definition normalize :: "string \<Rightarrow> string" where
  "normalize p =
     (if p = [] then ''.''
      else
        (let r = normalizeString p (\<not> isAbsolute p)
         in if r = [] then
              (if isAbsolute p then ''/'' else if endsWithSlash p then ''./'' else ''.'')
            else (if isAbsolute p then ''/'' else []) @ r @
                 (if endsWithSlash p then ''/'' else [])))"

definition join :: "string list \<Rightarrow> string" where
  "join args =
     (case filter (\<lambda>a. a \<noteq> []) args of
        [] \<Rightarrow> ''.''
      | a # as \<Rightarrow> normalize (intercalate ''/'' (a # as)))"

text \<open>
  \<open>path.dirname\<close> scans from the last character down to index 1 for the first slash
  that follows a non-slash. \<open>dirnameScan p k m\<close> has indices \<open>k, k - 1, ..., 1\<close>
  left to look at.
\<close>

fun dirnameScan :: "string \<Rightarrow> nat \<Rightarrow> bool \<Rightarrow> nat option" where
  "dirnameScan p 0 matchedSlash = None"
| "dirnameScan p (Suc i) matchedSlash =
     (if p ! Suc i = CHR ''/'' then
        (if matchedSlash then dirnameScan p i matchedSlash else Some (Suc i))
      else dirnameScan p i False)"

definition dirname :: "string \<Rightarrow> string" where
  "dirname p =
     (if p = [] then ''.''
      else
        (case dirnameScan p (length p - 1) True of
           None \<Rightarrow> if isAbsolute p then ''/'' else ''.''
         | Some e \<Rightarrow> if isAbsolute p \<and> e = 1 then ''//'' else take e p))"

text \<open>
  \<open>path.parse\<close>: only \<open>root\<close> and \<open>dir\<close> are read by the program. The scan looks at
  indices \<open>start + k - 1\<close> down to \<open>start\<close> and returns \<open>startPart\<close>.
\<close>

record parsedPath =
  root :: string
  dir :: string

fun parseScan :: "string \<Rightarrow> nat \<Rightarrow> nat \<Rightarrow> bool \<Rightarrow> nat" where
  "parseScan p start 0 matchedSlash = 0"
| "parseScan p start (Suc k) matchedSlash =
     (if p ! (start + k) = CHR ''/'' then
        (if matchedSlash then parseScan p start k matchedSlash else start + k + 1)
      else parseScan p start k False)"

definition parse :: "string \<Rightarrow> parsedPath" where
  "parse p =
     (if p = [] then \<lparr>root = [], dir = []\<rparr>
      else
        (let start = (if isAbsolute p then 1 else 0);
             startPart = parseScan p start (length p - start) True
         in \<lparr>root = (if isAbsolute p then ''/'' else []),
             dir = (if 0 < startPart then take (startPart - 1) p
                    else if isAbsolute p then ''/'' else [])\<rparr>))"

definition isRootDir :: "string \<Rightarrow> bool" where
  "isRootDir d = (let parsed = parse d in root parsed = d \<or> dir parsed = root parsed)"

subsection \<open>Errors\<close>

datatype errno = ENOENT | ENOTDIR | EISDIR | EACCES | ENXIO | ENOTEMPTY | EINVAL

datatype jsError =
    Error string                 \<comment> \<open>\<open>new Error(message)\<close>, thrown by the program\<close>
  | SystemError errno string     \<comment> \<open>a failed system call, with the call's name\<close>
  | ReferenceError string        \<comment> \<open>reading an identifier that nothing declares\<close>
  | DecodeError                  \<comment> \<open>the Brotli decoder rejecting its input\<close>

fun errnoName :: "errno \<Rightarrow> string" where
  "errnoName ENOENT = ''ENOENT''"
| "errnoName ENOTDIR = ''ENOTDIR''"
| "errnoName EISDIR = ''EISDIR''"
| "errnoName EACCES = ''EACCES''"
| "errnoName ENXIO = ''ENXIO''"
| "errnoName ENOTEMPTY = ''ENOTEMPTY''"
| "errnoName EINVAL = ''EINVAL''"

fun message :: "jsError \<Rightarrow> string" where
  "message (Error m) = m"
| "message (SystemError e syscall) = errnoName e @ '': '' @ syscall"
| "message (ReferenceError x) = x @ '' is not defined''"
| "message DecodeError = ''Decompression failed''"

subsection \<open>The filesystem\<close>

text \<open>
  A node is a regular file (with its read and write permission and its bytes), a
  directory (with the permission to add and remove entries) or anything else (a
  socket, a device). The filesystem lists the nodes by absolute normalized path, in
  directory order. Every path the program hands to \<open>fs\<close> comes out of
  \<open>path.resolve\<close> or \<open>path.join\<close>; the system resolves it once more against the
  process's working directory.
\<close>

datatype node = File bool bool string | Dir bool | Other

type_synonym filesystem = "(string \<times> node) list"

fun isDirectory :: "node \<Rightarrow> bool" where
  "isDirectory (Dir w) = True"
| "isDirectory n = False"

fun isFile :: "node \<Rightarrow> bool" where
  "isFile (File r w c) = True"
| "isFile n = False"

definition basename :: "string \<Rightarrow> string" where
  "basename p = last (split (CHR ''/'') p)"

definition key :: "string \<Rightarrow> string \<Rightarrow> string" where
  "key cwd p = resolve cwd [p]"

definition lookupNode :: "string \<Rightarrow> filesystem \<Rightarrow> string \<Rightarrow> string \<Rightarrow> jsError + node" where
  "lookupNode cwd fs syscall p =
     (case map_of fs (key cwd p) of
        None \<Rightarrow> Inl (SystemError ENOENT syscall)
      | Some n \<Rightarrow>
          if endsWithSlash p \<and> \<not> isDirectory n then Inl (SystemError ENOTDIR syscall)
          else Inr n)"

definition parentWritable :: "string \<Rightarrow> filesystem \<Rightarrow> string \<Rightarrow> string \<Rightarrow> jsError option" where
  \<comment> \<open>may an entry be added to or removed from the directory holding \<open>p\<close>\<close>
  "parentWritable cwd fs syscall p =
     (case map_of fs (dirname (key cwd p)) of
        None \<Rightarrow> Some (SystemError ENOENT syscall)
      | Some (Dir w) \<Rightarrow> if w then None else Some (SystemError EACCES syscall)
      | Some n \<Rightarrow> Some (SystemError ENOTDIR syscall))"

definition stat :: "string \<Rightarrow> filesystem \<Rightarrow> string \<Rightarrow> jsError + node" where
  "stat cwd fs p = lookupNode cwd fs ''stat'' p"

definition readdir :: "string \<Rightarrow> filesystem \<Rightarrow> string \<Rightarrow> jsError + (string \<times> node) list" where
  "readdir cwd fs p =
     (case lookupNode cwd fs ''scandir'' p of
        Inl e \<Rightarrow> Inl e
      | Inr (Dir w) \<Rightarrow>
          Inr (map (\<lambda>(k, n). (basename k, n))
                 (filter (\<lambda>(k, n). k \<noteq> ''/'' \<and> dirname k = key cwd p) fs))
      | Inr n \<Rightarrow> Inl (SystemError ENOTDIR ''scandir''))"

definition openWrite :: "string \<Rightarrow> filesystem \<Rightarrow> string \<Rightarrow> jsError + filesystem" where
  \<comment> \<open>open with flag \<open>w\<close>: create the file or truncate it\<close>
  "openWrite cwd fs p =
     (case map_of fs (key cwd p) of
        Some (File r w c) \<Rightarrow>
          if endsWithSlash p then Inl (SystemError ENOTDIR ''open'')
          else if w then Inr (AList.update (key cwd p) (File r w []) fs)
          else Inl (SystemError EACCES ''open'')
      | Some (Dir w) \<Rightarrow> Inl (SystemError EISDIR ''open'')
      | Some Other \<Rightarrow> Inl (SystemError ENXIO ''open'')
      | None \<Rightarrow>
          if endsWithSlash p then Inl (SystemError EISDIR ''open'')
          else (case parentWritable cwd fs ''open'' p of
                  Some e \<Rightarrow> Inl e
                | None \<Rightarrow> Inr (AList.update (key cwd p) (File True True []) fs)))"

definition setContent :: "string \<Rightarrow> filesystem \<Rightarrow> string \<Rightarrow> string \<Rightarrow> filesystem" where
  \<comment> \<open>the bytes written through an open descriptor\<close>
  "setContent cwd fs p d =
     (case map_of fs (key cwd p) of
        Some (File r w c) \<Rightarrow> AList.update (key cwd p) (File r w d) fs
      | _ \<Rightarrow> fs)"

definition writeFile :: "string \<Rightarrow> filesystem \<Rightarrow> string \<Rightarrow> string \<Rightarrow> jsError + filesystem" where
  "writeFile cwd fs p d =
     (case openWrite cwd fs p of
        Inl e \<Rightarrow> Inl e
      | Inr fs1 \<Rightarrow> Inr (setContent cwd fs1 p d))"

definition openRead :: "string \<Rightarrow> filesystem \<Rightarrow> string \<Rightarrow> jsError + string" where
  \<comment> \<open>what a read stream delivers: the file's bytes, or the error it emits\<close>
  "openRead cwd fs p =
     (case lookupNode cwd fs ''open'' p of
        Inl e \<Rightarrow> Inl e
      | Inr (File r w c) \<Rightarrow> if r then Inr c else Inl (SystemError EACCES ''open'')
      | Inr (Dir w) \<Rightarrow> Inl (SystemError EISDIR ''read'')
      | Inr Other \<Rightarrow> Inl (SystemError ENXIO ''open''))"

definition unlink :: "string \<Rightarrow> filesystem \<Rightarrow> string \<Rightarrow> jsError + filesystem" where
  "unlink cwd fs p =
     (case lookupNode cwd fs ''unlink'' p of
        Inl e \<Rightarrow> Inl e
      | Inr (Dir w) \<Rightarrow> Inl (SystemError EISDIR ''unlink'')
      | Inr n \<Rightarrow>
          (case parentWritable cwd fs ''unlink'' p of
             Some e \<Rightarrow> Inl e
           | None \<Rightarrow> Inr (AList.delete (key cwd p) fs)))"

definition under :: "string \<Rightarrow> string \<Rightarrow> bool" where
  \<comment> \<open>\<open>k\<close> lies strictly below the directory \<open>d\<close>\<close>
  "under d k = (k \<noteq> d \<and> startsWith k (if d = ''/'' then d else d @ ''/''))"

definition rekey :: "string \<Rightarrow> string \<Rightarrow> string \<Rightarrow> string" where
  "rekey old new k = (if k = old then new else if under old k then new @ drop (length old) k else k)"

definition rename :: "string \<Rightarrow> filesystem \<Rightarrow> string \<Rightarrow> string \<Rightarrow> jsError + filesystem" where
  "rename cwd fs oldPath newPath =
     (let old = key cwd oldPath; new = key cwd newPath
      in case lookupNode cwd fs ''rename'' oldPath of
           Inl e \<Rightarrow> Inl e
         | Inr n \<Rightarrow>
             if old = new then Inr fs
             else if under old new \<or> old = ''/'' then Inl (SystemError EINVAL ''rename'')
             else
               (case (parentWritable cwd fs ''rename'' oldPath,
                      parentWritable cwd fs ''rename'' newPath) of
                  (Some e, _) \<Rightarrow> Inl e
                | (None, Some e) \<Rightarrow> Inl e
                | (None, None) \<Rightarrow>
                    (case map_of fs new of
                       Some (Dir w) \<Rightarrow>
                         if \<not> isDirectory n then Inl (SystemError EISDIR ''rename'')
                         else if list_ex (\<lambda>(k, m). under new k) fs
                           then Inl (SystemError ENOTEMPTY ''rename'')
                         else Inr (map (\<lambda>(k, m). (rekey old new k, m)) (AList.delete new fs))
                     | Some m \<Rightarrow>
                         if isDirectory n then Inl (SystemError ENOTDIR ''rename'')
                         else Inr (map (\<lambda>(k, m). (rekey old new k, m)) (AList.delete new fs))
                     | None \<Rightarrow>
                         if endsWithSlash newPath \<and> \<not> isDirectory n
                           then Inl (SystemError ENOTDIR ''rename'')
                         else Inr (map (\<lambda>(k, m). (rekey old new k, m)) fs))))"

subsection \<open>SHA-256, the digest behind \<open>crypto.createHash('sha256')\<close>\<close>

text \<open>
  FIPS 180-4 on 32-bit words, held as naturals below \<open>2 ^ 32\<close> with the wrap-around
  of each addition written out. The message schedule is a window of sixteen words:
  each round consumes the oldest and appends the next.
\<close>

type_synonym u32 = nat

definition add32 :: "u32 \<Rightarrow> u32 \<Rightarrow> u32" where
  "add32 a b = (a + b) mod 4294967296"

definition rotr :: "nat \<Rightarrow> u32 \<Rightarrow> u32" where
  "rotr n x = x div 2 ^ n + (x mod 2 ^ n) * 2 ^ (32 - n)"

definition shr :: "nat \<Rightarrow> u32 \<Rightarrow> u32" where
  "shr n x = x div 2 ^ n"

definition Ch :: "u32 \<Rightarrow> u32 \<Rightarrow> u32 \<Rightarrow> u32" where
  "Ch x y z = (x AND y) XOR ((4294967295 - x) AND z)"

definition Maj :: "u32 \<Rightarrow> u32 \<Rightarrow> u32 \<Rightarrow> u32" where
  "Maj x y z = (x AND y) XOR (x AND z) XOR (y AND z)"

definition Sigma0 :: "u32 \<Rightarrow> u32" where
  "Sigma0 x = rotr 2 x XOR rotr 13 x XOR rotr 22 x"

definition Sigma1 :: "u32 \<Rightarrow> u32" where
  "Sigma1 x = rotr 6 x XOR rotr 11 x XOR rotr 25 x"

definition sigma0 :: "u32 \<Rightarrow> u32" where
  "sigma0 x = rotr 7 x XOR rotr 18 x XOR shr 3 x"

definition sigma1 :: "u32 \<Rightarrow> u32" where
  "sigma1 x = rotr 17 x XOR rotr 19 x XOR shr 10 x"

definition K256 :: "u32 list" where
  "K256 =
     [1116352408, 1899447441, 3049323471, 3921009573, 961987163, 1508970993,
      2453635748, 2870763221, 3624381080, 310598401, 607225278, 1426881987,
      1925078388, 2162078206, 2614888103, 3248222580, 3835390401, 4022224774,
      264347078, 604807628, 770255983, 1249150122, 1555081692, 1996064986,
      2554220882, 2821834349, 2952996808, 3210313671, 3336571891, 3584528711,
      113926993, 338241895, 666307205, 773529912, 1294757372, 1396182291,
      1695183700, 1986661051, 2177026350, 2456956037, 2730485921, 2820302411,
      3259730800, 3345764771, 3516065817, 3600352804, 4094571909, 275423344,
      430227734, 506948616, 659060556, 883997877, 958139571, 1322822218,
      1537002063, 1747873779, 1955562222, 2024104815, 2227730452, 2361852424,
      2428436474, 2756734187, 3204031479, 3329325298]"

definition H256 :: "u32 list" where
  "H256 = [1779033703, 3144134277, 1013904242, 2773480762,
           1359893119, 2600822924, 528734635, 1541459225]"

type_synonym regs = "u32 \<times> u32 \<times> u32 \<times> u32 \<times> u32 \<times> u32 \<times> u32 \<times> u32"

fun round256 :: "regs \<Rightarrow> u32 \<Rightarrow> u32 \<Rightarrow> regs" where
  "round256 (a, b, c, d, e, f, g, h) k w =
     (let t1 = add32 (add32 (add32 (add32 h (Sigma1 e)) (Ch e f g)) k) w;
          t2 = add32 (Sigma0 a) (Maj a b c)
      in (add32 t1 t2, a, b, c, add32 d t1, e, f, g))"

definition nextWord :: "u32 list \<Rightarrow> u32" where
  "nextWord win =
     add32 (add32 (add32 (sigma1 (win ! 14)) (win ! 9)) (sigma0 (win ! 1))) (win ! 0)"

fun rounds :: "u32 list \<Rightarrow> u32 list \<Rightarrow> regs \<Rightarrow> regs" where
  "rounds [] win s = s"
| "rounds (k # ks) win s = rounds ks (tl win @ [nextWord win]) (round256 s k (hd win))"

fun wordsOf :: "nat list \<Rightarrow> u32 list" where
  \<comment> \<open>big-endian words of a byte string whose length is a multiple of 4\<close>
  "wordsOf (b0 # b1 # b2 # b3 # bs) = (((b0 * 256 + b1) * 256 + b2) * 256 + b3) # wordsOf bs"
| "wordsOf bs = []"

definition bytesOf :: "u32 \<Rightarrow> nat list" where
  "bytesOf w = [w div 16777216, w div 65536 mod 256, w div 256 mod 256, w mod 256]"

definition compress256 :: "u32 list \<Rightarrow> nat list \<Rightarrow> u32 list" where
  "compress256 hs block =
     (case rounds K256 (wordsOf block)
             (hs ! 0, hs ! 1, hs ! 2, hs ! 3, hs ! 4, hs ! 5, hs ! 6, hs ! 7) of
        (a, b, c, d, e, f, g, h) \<Rightarrow>
          [add32 (hs ! 0) a, add32 (hs ! 1) b, add32 (hs ! 2) c, add32 (hs ! 3) d,
           add32 (hs ! 4) e, add32 (hs ! 5) f, add32 (hs ! 6) g, add32 (hs ! 7) h])"

definition pad256 :: "nat list \<Rightarrow> nat list" where
  "pad256 m =
     m @ [128] @ replicate ((119 - length m mod 64) mod 64) 0 @
     bytesOf (8 * length m div 4294967296 mod 4294967296) @
     bytesOf (8 * length m mod 4294967296)"

function blocks256 :: "u32 list \<Rightarrow> nat list \<Rightarrow> u32 list" where
  "blocks256 hs bs =
     (if bs = [] then hs else blocks256 (compress256 hs (take 64 bs)) (drop 64 bs))"
  by pat_completeness auto
termination
  by (relation "measure (\<lambda>(hs, bs). length bs)") auto

declare blocks256.simps [simp del]

definition sha256 :: "string \<Rightarrow> nat list" where
  "sha256 m = concat (map bytesOf (blocks256 H256 (pad256 (map of_char m))))"

definition hexDigit :: "nat \<Rightarrow> char" where
  "hexDigit n = ''0123456789abcdef'' ! n"

definition hex :: "nat list \<Rightarrow> string" where
  \<comment> \<open>\<open>digest('hex')\<close>: two lowercase digits for each byte\<close>
  "hex bs = concat (map (\<lambda>b. [hexDigit (b div 16), hexDigit (b mod 16)]) bs)"

subsection \<open>Streams\<close>

text \<open>
  A file read stream delivers the file in chunks of 64 KiB (its \<open>highWaterMark\<close>).
\<close>

function chunksOf :: "nat \<Rightarrow> string \<Rightarrow> string list" where
  "chunksOf n d = (if d = [] \<or> n = 0 then [] else take n d # chunksOf n (drop n d))"
  by pat_completeness auto
termination
  by (relation "measure (\<lambda>(n, d). length d)") auto

declare chunksOf.simps [simp del]

text \<open>
  \<open>readable.pipe(dest)\<close> registers one more \<open>data\<close> listener that writes each chunk to
  \<open>dest\<close>, and one more \<open>end\<close> listener that ends it; it does not look whether
  \<open>dest\<close> is piped already. So a stream piped \<open>n\<close> times into one destination writes
  every chunk \<open>n\<close> times there, in place, before the next chunk. Ending a destination
  that has ended does nothing.
\<close>

definition piped :: "nat \<Rightarrow> string list \<Rightarrow> string" where
  "piped n chunks = concat (map (\<lambda>c. concat (replicate n c)) chunks)"

text \<open>
  \<open>pipeline(source, ..., sink, callback)\<close>: both files are opened before any byte
  moves, and the sink's open creates or truncates its file whether or not the source
  opens. The bytes that reach the sink are the transform's output; they stay there
  when the transform fails. The result is the error handed to the callback, if any.
\<close>

definition pipeline ::
  "string \<Rightarrow> string \<Rightarrow> (string \<Rightarrow> string \<times> bool) \<Rightarrow> string \<Rightarrow> filesystem
     \<Rightarrow> jsError option \<times> filesystem" where
  "pipeline cwd src transform dst fs =
     (case openRead cwd fs src of
        Inl e \<Rightarrow> (Some e, (case openWrite cwd fs dst of Inl e' \<Rightarrow> fs | Inr fs1 \<Rightarrow> fs1))
      | Inr d0 \<Rightarrow>
          (case openWrite cwd fs dst of
             Inl e \<Rightarrow> (Some e, fs)
           | Inr fs1 \<Rightarrow>
               (case openRead cwd fs1 src of
                  Inl e \<Rightarrow> (Some e, fs1)
                | Inr d \<Rightarrow>
                    (case transform d of
                       (written, ok) \<Rightarrow>
                         (if ok then None else Some DecodeError,
                          setContent cwd fs1 dst written)))))"

subsection \<open>The session\<close>

record env =
  homedir :: string                             \<comment> \<open>\<open>os.homedir()\<close>\<close>
  processCwd :: string                          \<comment> \<open>\<open>process.cwd()\<close>\<close>
  username :: string                            \<comment> \<open>from \<open>--username=\<close>, or \<open>User\<close>\<close>
  osUsername :: string                          \<comment> \<open>\<open>os.userInfo().username\<close>\<close>
  eol :: string                                 \<comment> \<open>\<open>JSON.stringify(os.EOL)\<close>\<close>
  cpus :: "(string \<times> nat) list"                 \<comment> \<open>model and speed in MHz\<close>
  toFixed2 :: "nat \<Rightarrow> string"                    \<comment> \<open>\<open>(speed / 1000).toFixed(2)\<close>\<close>
  arch :: string                                \<comment> \<open>\<open>process.arch\<close>\<close>
  localeCompare :: "string \<Rightarrow> string \<Rightarrow> int"
  brotliCompress :: "string \<Rightarrow> string"
  brotliDecompress :: "string \<Rightarrow> string \<times> bool" \<comment> \<open>bytes produced, and whether the input was valid\<close>

datatype printed =
    Log string                        \<comment> \<open>\<open>console.log\<close>\<close>
  | ErrorLine string                  \<comment> \<open>\<open>console.error\<close>\<close>
  | Table "(string \<times> string) list"    \<comment> \<open>\<open>console.table\<close>, two columns\<close>
  | Write string                      \<comment> \<open>bytes piped to \<open>process.stdout\<close>\<close>
  | Prompt                            \<comment> \<open>\<open>rl.prompt()\<close>\<close>

datatype status = Running | Exited nat | Crashed jsError

record world =
  currentDir :: string
  files :: filesystem
  out :: "printed list"
  status :: status

definition emit :: "printed \<Rightarrow> world \<Rightarrow> world" where
  "emit x w = w\<lparr>out := out w @ [x]\<rparr>"

definition showCurrentDir :: "world \<Rightarrow> world" where
  "showCurrentDir w = emit Prompt (emit (Log (''You are currently in '' @ currentDir w)) w)"

text \<open>
  What a \<open>case\<close> of the \<open>switch\<close> comes to: it reaches its \<open>break\<close>; or it throws
  inside the \<open>try\<close>; or it reaches its \<open>break\<close> with a pipeline started whose
  callback has not run yet; or the process ends while the case is waiting (an
  \<open>error\<close> event nobody listens to, a rejection nobody handles, \<open>process.exit\<close>).
\<close>

datatype outcome =
    Done world
  | Throws jsError world
  | Later string "string \<Rightarrow> string \<times> bool" string world
  | Dies world

definition argMissing :: "string list \<Rightarrow> nat \<Rightarrow> bool" where
  \<comment> \<open>\<open>!args[i]\<close>: the argument is \<open>undefined\<close> or the empty string\<close>
  "argMissing args i = (length args \<le> i \<or> args ! i = [])"

definition invalidInput :: jsError where
  "invalidInput = Error ''Invalid input''"

definition operationFailed :: jsError where
  "operationFailed = Error ''Operation failed''"

subsection \<open>Sorting the listing\<close>

text \<open>
  \<open>Array.prototype.sort\<close> is stable; with a consistent comparator its result is that
  of any stable sort. Each element goes behind the elements it does not precede.
\<close>

fun insertBy :: "('a \<Rightarrow> 'a \<Rightarrow> int) \<Rightarrow> 'a \<Rightarrow> 'a list \<Rightarrow> 'a list" where
  "insertBy cmp x [] = [x]"
| "insertBy cmp x (y # ys) = (if cmp x y < 0 then x # y # ys else y # insertBy cmp x ys)"

definition sortBy :: "('a \<Rightarrow> 'a \<Rightarrow> int) \<Rightarrow> 'a list \<Rightarrow> 'a list" where
  "sortBy cmp xs = foldl (\<lambda>acc x. insertBy cmp x acc) [] xs"

definition listing :: "(string \<Rightarrow> string \<Rightarrow> int) \<Rightarrow> (string \<times> node) list \<Rightarrow> (string \<times> string) list" where
  "listing cmp items =
     (let dirs = map (\<lambda>item. (fst item, ''directory'')) (filter (\<lambda>item. isDirectory (snd item)) items);
          files = map (\<lambda>item. (fst item, ''file'')) (filter (\<lambda>item. isFile (snd item)) items)
      in sortBy (\<lambda>a b. cmp (fst a) (fst b)) (dirs @ files))"

subsection \<open>The cases of \<open>handleCommand\<close>\<close>

definition caseUp :: "world \<Rightarrow> outcome" where
  "caseUp w =
     (if \<not> isRootDir (currentDir w) then Done (w\<lparr>currentDir := dirname (currentDir w)\<rparr>)
      else Done w)"

text \<open>
  The condition of the last \<open>if\<close> of \<open>cd\<close> (line 50) is written
  \<open>!isRootDir(newDir) |x| newDir.startsWith(os.homedir())\<close>, where \<open>x\<close> is the
  one-letter identifier U+0434 (bytes D0 B4 in UTF-8): two bitwise ORs around a
  variable. Nothing declares that variable, in the module or in Node, so reading
  it throws a \<open>ReferenceError\<close>, after \<open>isRootDir\<close> has been called and before
  \<open>startsWith\<close> is. The assignment to \<open>currentDir\<close> that the condition guards is
  never reached.
\<close>

definition undeclared :: string where
  "undeclared = [CHR 0xD0, CHR 0xB4]"

definition cdCondition :: "string \<Rightarrow> string \<Rightarrow> jsError + bool" where
  "cdCondition home newDir = (let notRoot = \<not> isRootDir newDir in Inl (ReferenceError undeclared))"

definition caseCd :: "env \<Rightarrow> string list \<Rightarrow> world \<Rightarrow> outcome" where
  "caseCd E args w =
     (if argMissing args 0 then Throws invalidInput w
      else
        (let newDir = resolve (processCwd E) [currentDir w, args ! 0]
         in case stat (processCwd E) (files w) newDir of
              Inl e \<Rightarrow> Throws e w
            | Inr stats \<Rightarrow>
                if \<not> isDirectory stats then Throws invalidInput w
                else
                  (case cdCondition (homedir E) newDir of
                     Inl e \<Rightarrow> Throws e w
                   | Inr allowed \<Rightarrow>
                       if allowed then Done (w\<lparr>currentDir := newDir\<rparr>) else Done w)))"

definition caseLs :: "env \<Rightarrow> world \<Rightarrow> outcome" where
  "caseLs E w =
     (case readdir (processCwd E) (files w) (currentDir w) of
        Inl e \<Rightarrow> Throws e w
      | Inr items \<Rightarrow> Done (emit (Table (listing (localeCompare E) items)) w))"

definition caseCat :: "env \<Rightarrow> string list \<Rightarrow> world \<Rightarrow> outcome" where
  "caseCat E args w =
     (if argMissing args 0 then Throws invalidInput w
      else
        (let readPath = resolve (processCwd E) [currentDir w, args ! 0]
         in case openRead (processCwd E) (files w) readPath of
              Inl e \<Rightarrow> Dies (w\<lparr>status := Crashed e\<rparr>)
            | Inr d \<Rightarrow> Done (emit (Log []) (emit (Write d) w))))"

definition caseAdd :: "env \<Rightarrow> string list \<Rightarrow> world \<Rightarrow> outcome" where
  "caseAdd E args w =
     (if argMissing args 0 then Throws invalidInput w
      else
        (case writeFile (processCwd E) (files w) (join [currentDir w, args ! 0]) [] of
           Inl e \<Rightarrow> Throws e w
         | Inr fs \<Rightarrow> Done (w\<lparr>files := fs\<rparr>)))"

definition caseRn :: "env \<Rightarrow> string list \<Rightarrow> world \<Rightarrow> outcome" where
  "caseRn E args w =
     (if argMissing args 0 \<or> argMissing args 1 then Throws invalidInput w
      else
        (let oldPath = resolve (processCwd E) [currentDir w, args ! 0];
             newPath = join [dirname oldPath, args ! 1]
         in case rename (processCwd E) (files w) oldPath newPath of
              Inl e \<Rightarrow> Throws e w
            | Inr fs \<Rightarrow> Done (w\<lparr>files := fs\<rparr>)))"

definition caseCp :: "env \<Rightarrow> string list \<Rightarrow> world \<Rightarrow> outcome" where
  "caseCp E args w =
     (if argMissing args 0 \<or> argMissing args 1 then Throws invalidInput w
      else
        (let srcPath = resolve (processCwd E) [currentDir w, args ! 0];
             destPath = resolve (processCwd E) [currentDir w, args ! 1]
         in Later srcPath (\<lambda>d. (d, True)) destPath w))"

text \<open>
  \<open>mv\<close> waits for a promise that the pipeline's callback settles: rejected on a
  pipeline error, resolved after \<open>fs.unlink\<close>. The callback is an \<open>async\<close> function
  with no \<open>try\<close>: when \<open>unlink\<close> fails, the rejection is the callback's own, nobody
  handles it, and Node ends the process on it (before version 15 it only warned,
  and the command waited for ever).
\<close>

definition caseMv :: "env \<Rightarrow> string list \<Rightarrow> world \<Rightarrow> outcome" where
  "caseMv E args w =
     (if argMissing args 0 \<or> argMissing args 1 then Throws invalidInput w
      else
        (let srcMvPath = resolve (processCwd E) [currentDir w, args ! 0];
             destMvPath = resolve (processCwd E) [currentDir w, args ! 1]
         in case pipeline (processCwd E) srcMvPath (\<lambda>d. (d, True)) destMvPath (files w) of
              (Some err, fs) \<Rightarrow> Throws operationFailed (w\<lparr>files := fs\<rparr>)
            | (None, fs) \<Rightarrow>
                (case unlink (processCwd E) fs srcMvPath of
                   Inl e \<Rightarrow> Dies (w\<lparr>files := fs, status := Crashed e\<rparr>)
                 | Inr fs' \<Rightarrow> Done (w\<lparr>files := fs'\<rparr>))))"

definition caseRm :: "env \<Rightarrow> string list \<Rightarrow> world \<Rightarrow> outcome" where
  "caseRm E args w =
     (if argMissing args 0 then Throws invalidInput w
      else
        (case unlink (processCwd E) (files w) (resolve (processCwd E) [currentDir w, args ! 0]) of
           Inl e \<Rightarrow> Throws e w
         | Inr fs \<Rightarrow> Done (w\<lparr>files := fs\<rparr>)))"

definition caseOs :: "env \<Rightarrow> string list \<Rightarrow> world \<Rightarrow> outcome" where
  "caseOs E args w =
     (if argMissing args 0 then Throws invalidInput w
      else if args ! 0 = ''--EOL'' then Done (emit (Log (eol E)) w)
      else if args ! 0 = ''--cpus'' then
        Done (emit (Table (map (\<lambda>cpu. (fst cpu, toFixed2 E (snd cpu) @ '' GHz'')) (cpus E))) w)
      else if args ! 0 = ''--homedir'' then Done (emit (Log (homedir E)) w)
      else if args ! 0 = ''--username'' then Done (emit (Log (osUsername E)) w)
      else if args ! 0 = ''--architecture'' then Done (emit (Log (arch E)) w)
      else Throws invalidInput w)"

text \<open>
  \<open>hash\<close> calls \<open>hashStream.pipe(hash)\<close> at line 149 and again at line 152, inside
  the promise, before the file is open. The digest is taken on \<open>finish\<close>, after the
  stream has ended the hash. A read stream that fails emits \<open>error\<close>; nothing
  listens, in \<open>hash\<close> as in \<open>cat\<close>, and the process ends.
\<close>

definition caseHash :: "env \<Rightarrow> string list \<Rightarrow> world \<Rightarrow> outcome" where
  "caseHash E args w =
     (if argMissing args 0 then Throws invalidInput w
      else
        (let filePath = resolve (processCwd E) [currentDir w, args ! 0]
         in case openRead (processCwd E) (files w) filePath of
              Inl e \<Rightarrow> Dies (w\<lparr>status := Crashed e\<rparr>)
            | Inr d \<Rightarrow>
                (let hashValue = hex (sha256 (piped 2 (chunksOf 65536 d)))
                 in Done (emit (Log hashValue) w))))"

definition caseCompress :: "env \<Rightarrow> string list \<Rightarrow> world \<Rightarrow> outcome" where
  "caseCompress E args w =
     (if argMissing args 0 \<or> argMissing args 1 then Throws invalidInput w
      else
        (let srcCompress = resolve (processCwd E) [currentDir w, args ! 0];
             destCompress = resolve (processCwd E) [currentDir w, args ! 1]
         in Later srcCompress (\<lambda>d. (brotliCompress E d, True)) destCompress w))"

definition caseDecompress :: "env \<Rightarrow> string list \<Rightarrow> world \<Rightarrow> outcome" where
  "caseDecompress E args w =
     (if argMissing args 0 \<or> argMissing args 1 then Throws invalidInput w
      else
        (let srcDecompress = resolve (processCwd E) [currentDir w, args ! 0];
             destDecompress = resolve (processCwd E) [currentDir w, args ! 1]
         in Later srcDecompress (brotliDecompress E) destDecompress w))"

definition caseExit :: "env \<Rightarrow> world \<Rightarrow> outcome" where
  "caseExit E w =
     Dies ((emit (Log (''Thank you for using File Manager, '' @ username E @ '', goodbye!'')) w)
             \<lparr>status := Exited 0\<rparr>)"

definition switch :: "env \<Rightarrow> string list \<Rightarrow> world \<Rightarrow> outcome" where
  \<comment> \<open>\<open>toks\<close> is \<open>[command, ...args]\<close>; with no token the command is \<open>undefined\<close>\<close>
  "switch E toks w =
     (case toks of
        [] \<Rightarrow> Throws invalidInput w
      | command # args \<Rightarrow>
          if command = ''up'' then caseUp w
          else if command = ''cd'' then caseCd E args w
          else if command = ''ls'' then caseLs E w
          else if command = ''cat'' then caseCat E args w
          else if command = ''add'' then caseAdd E args w
          else if command = ''rn'' then caseRn E args w
          else if command = ''cp'' then caseCp E args w
          else if command = ''mv'' then caseMv E args w
          else if command = ''rm'' then caseRm E args w
          else if command = ''os'' then caseOs E args w
          else if command = ''hash'' then caseHash E args w
          else if command = ''compress'' then caseCompress E args w
          else if command = ''decompress'' then caseDecompress E args w
          else if command = ''.exit'' then caseExit E w
          else Throws invalidInput w)"

definition report :: "jsError \<Rightarrow> string" where
  \<comment> \<open>what the \<open>catch\<close> prints\<close>
  "report err =
     (if message err = ''Invalid input'' \<or> message err = ''Operation failed'' then message err
      else ''Operation failed'')"

text \<open>
  The callback of \<open>cp\<close>, \<open>compress\<close> and \<open>decompress\<close> is
  \<open>err => { if (err) throw new Error('Operation failed') }\<close>. It runs from the event
  loop once the pipeline has settled, when \<open>handleCommand\<close> has long left its
  \<open>try\<close>: what it throws is an uncaught exception, and the process ends.
\<close>

definition callback :: "env \<Rightarrow> string \<Rightarrow> (string \<Rightarrow> string \<times> bool) \<Rightarrow> string \<Rightarrow> world \<Rightarrow> world" where
  "callback E src transform dst w =
     (case pipeline (processCwd E) src transform dst (files w) of
        (Some err, fs) \<Rightarrow> w\<lparr>files := fs, status := Crashed operationFailed\<rparr>
      | (None, fs) \<Rightarrow> w\<lparr>files := fs\<rparr>)"

definition handleCommand :: "env \<Rightarrow> string \<Rightarrow> world \<Rightarrow> world" where
  "handleCommand E input w =
     (case switch E (tokens input) w of
        Done w' \<Rightarrow> showCurrentDir w'
      | Throws err w' \<Rightarrow> showCurrentDir (emit (ErrorLine (report err)) w')
      | Later src transform dst w' \<Rightarrow> callback E src transform dst (showCurrentDir w')
      | Dies w' \<Rightarrow> w')"

subsection \<open>The dispatch table\<close>

text \<open>
  The labels of the \<open>switch\<close>, and for each the number of arguments its case checks
  with \<open>!args[0]\<close> and \<open>!args[1]\<close> before it does anything else.
\<close>

definition commands :: "string list" where
  "commands = [''up'', ''cd'', ''ls'', ''cat'', ''add'', ''rn'', ''cp'', ''mv'', ''rm'', ''os'',
               ''hash'', ''compress'', ''decompress'', ''.exit'']"

definition minArgs :: "string \<Rightarrow> nat" where
  "minArgs command =
     (if command \<in> set [''rn'', ''cp'', ''mv'', ''compress'', ''decompress''] then 2
      else if command \<in> set [''cd'', ''cat'', ''add'', ''rm'', ''os'', ''hash''] then 1
      else 0)"

subsection \<open>A session to run the program on\<close>

text \<open>
  A comparator standing in for the locale's collation on plain ASCII names: letters
  are compared without their case first, and lowercase goes before uppercase when
  that leaves a tie.
\<close>

definition foldCase :: "char \<Rightarrow> nat" where
  "foldCase c = (let n = of_char c in if 65 \<le> n \<and> n \<le> 90 then n + 32 else n)"

definition caseRank :: "char \<Rightarrow> nat" where
  "caseRank c = (let n = of_char c :: nat in if 65 \<le> n \<and> n \<le> 90 then 1 else 0)"

fun compareCodes :: "nat list \<Rightarrow> nat list \<Rightarrow> int" where
  "compareCodes [] [] = 0"
| "compareCodes [] (y # ys) = - 1"
| "compareCodes (x # xs) [] = 1"
| "compareCodes (x # xs) (y # ys) =
     (if x < y then - 1 else if y < x then 1 else compareCodes xs ys)"

definition collate :: "string \<Rightarrow> string \<Rightarrow> int" where
  "collate a b =
     (let primary = compareCodes (map foldCase a) (map foldCase b)
      in if primary = 0 then compareCodes (map caseRank a) (map caseRank b) else primary)"

text \<open>
  A user at home, with a directory \<open>b\<close>, a one-byte file and an empty file there, and
  a file it may read in a directory it may not change. The codec of this session
  is not exercised; it stores the bytes as they are.
\<close>

definition exampleEnv :: env where
  "exampleEnv =
     \<lparr>homedir = ''/home/user'', processCwd = ''/home/user'', username = ''User'',
      osUsername = ''user'', eol = [CHR 0x22, CHR 0x5C, CHR ''n'', CHR 0x22],
      cpus = [], toFixed2 = (\<lambda>n. []),
      arch = ''x64'', localeCompare = collate,
      brotliCompress = (\<lambda>d. d), brotliDecompress = (\<lambda>d. (d, True))\<rparr>"

definition exampleFiles :: filesystem where
  "exampleFiles =
     [(''/'', Dir True), (''/home'', Dir True), (''/home/user'', Dir True),
      (''/home/user/b'', Dir True),
      (''/home/user/a.txt'', File True True ''a''),
      (''/home/user/empty'', File True True []),
      (''/srv'', Dir False),
      (''/srv/data.bin'', File True False ''xyz'')]"

definition exampleWorld :: world where
  "exampleWorld =
     \<lparr>currentDir = ''/home/user'', files = exampleFiles, out = [], status = Running\<rparr>"

text \<open>
  The state a case leaves behind, and whether it failed: it threw, or the process
  ended in it.
\<close>

fun worldOf :: "outcome \<Rightarrow> world" where
  "worldOf (Done w) = w"
| "worldOf (Throws e w) = w"
| "worldOf (Later src transform dst w) = w"
| "worldOf (Dies w) = w"

fun failed :: "outcome \<Rightarrow> bool" where
  "failed (Throws e w) = True"
| "failed (Dies w) = True"
| "failed x = False"

section \<open>Properties\<close>

subsection \<open>Dispatch\<close>

lemma argMissing_short: "length args \<le> i \<Longrightarrow> argMissing args i"
  by (simp add: argMissing_def)

lemma report_invalidInput: "report invalidInput = ''Invalid input''"
  by (simp add: report_def invalidInput_def)

lemma currentDir_emit: "currentDir (emit x w) = currentDir w"
  by (simp add: emit_def)

lemma currentDir_showCurrentDir: "currentDir (showCurrentDir w) = currentDir w"
  by (simp add: showCurrentDir_def emit_def)

lemma switch_unknown:
  "command \<notin> set commands \<Longrightarrow> switch E (command # args) w = Throws invalidInput w"
  by (simp add: switch_def commands_def)

lemma switch_cases:
  "switch E (''up'' # args) w = caseUp w"
  "switch E (''cd'' # args) w = caseCd E args w"
  "switch E (''ls'' # args) w = caseLs E w"
  "switch E (''cat'' # args) w = caseCat E args w"
  "switch E (''add'' # args) w = caseAdd E args w"
  "switch E (''rn'' # args) w = caseRn E args w"
  "switch E (''cp'' # args) w = caseCp E args w"
  "switch E (''mv'' # args) w = caseMv E args w"
  "switch E (''rm'' # args) w = caseRm E args w"
  "switch E (''os'' # args) w = caseOs E args w"
  "switch E (''hash'' # args) w = caseHash E args w"
  "switch E (''compress'' # args) w = caseCompress E args w"
  "switch E (''decompress'' # args) w = caseDecompress E args w"
  "switch E (''.exit'' # args) w = caseExit E w"
  by (simp_all add: switch_def)

lemma tooFew_one:
  assumes "length args < 1"
  shows "caseCd E args w = Throws invalidInput w" "caseCat E args w = Throws invalidInput w"
    "caseAdd E args w = Throws invalidInput w" "caseRm E args w = Throws invalidInput w"
    "caseOs E args w = Throws invalidInput w" "caseHash E args w = Throws invalidInput w"
  using assms
  by (simp_all add: caseCd_def caseCat_def caseAdd_def caseRm_def caseOs_def caseHash_def
      argMissing_def)

lemma tooFew_two:
  assumes "length args < 2"
  shows "caseRn E args w = Throws invalidInput w" "caseCp E args w = Throws invalidInput w"
    "caseMv E args w = Throws invalidInput w" "caseCompress E args w = Throws invalidInput w"
    "caseDecompress E args w = Throws invalidInput w"
proof -
  from assms have "argMissing args 0 \<or> argMissing args 1"
    by (auto simp: argMissing_def)
  then show "caseRn E args w = Throws invalidInput w" "caseCp E args w = Throws invalidInput w"
    "caseMv E args w = Throws invalidInput w" "caseCompress E args w = Throws invalidInput w"
    "caseDecompress E args w = Throws invalidInput w"
    by (simp_all add: caseRn_def caseCp_def caseMv_def caseCompress_def caseDecompress_def)
qed

lemma switch_tooFew:
  assumes "length args < minArgs command"
  shows "switch E (command # args) w = Throws invalidInput w"
proof -
  consider "command \<in> set [''rn'', ''cp'', ''mv'', ''compress'', ''decompress'']" "length args < 2"
    | "command \<in> set [''cd'', ''cat'', ''add'', ''rm'', ''os'', ''hash'']" "length args < 1"
    using assms unfolding minArgs_def by (cases "command \<in> set [''rn'', ''cp'', ''mv'', ''compress'', ''decompress'']"; cases "command \<in> set [''cd'', ''cat'', ''add'', ''rm'', ''os'', ''hash'']"; simp)
  then show ?thesis
  proof cases
    case 1
    from 1(1) have "command = ''rn'' \<or> command = ''cp'' \<or> command = ''mv''
        \<or> command = ''compress'' \<or> command = ''decompress''" by simp
    then show ?thesis
      using tooFew_two [OF 1(2)] switch_cases by metis
  next
    case 2
    from 2(1) have "command = ''cd'' \<or> command = ''cat'' \<or> command = ''add''
        \<or> command = ''rm'' \<or> command = ''os'' \<or> command = ''hash''" by simp
    then show ?thesis
      using tooFew_one [OF 2(2)] switch_cases by metis
  qed
qed

text \<open>
  C7. An input line whose command is not a label of the \<open>switch\<close> (a blank line has
  no command at all), or whose command comes with fewer arguments than its case
  checks for, prints \<open>Invalid input\<close> and then the prompt; nothing else changes, the
  current directory included.
\<close>

theorem invalid_input_unknown_or_too_few:
  assumes "tokens input = [] \<or> (\<exists>command args. tokens input = command # args \<and>
             (command \<notin> set commands \<or> length args < minArgs command))"
  shows "handleCommand E input w = showCurrentDir (emit (ErrorLine ''Invalid input'') w)
         \<and> currentDir (handleCommand E input w) = currentDir w"
proof -
  have "switch E (tokens input) w = Throws invalidInput w"
    using assms switch_unknown switch_tooFew by (auto simp: switch_def)
  then show ?thesis
    by (simp add: handleCommand_def report_invalidInput currentDir_showCurrentDir currentDir_emit)
qed

theorem invalid_input_unknown_or_too_few_witness:
  "handleCommand exampleEnv ''rn a.txt'' exampleWorld
     = showCurrentDir (emit (ErrorLine ''Invalid input'') exampleWorld)
   \<and> handleCommand exampleEnv ''dir /home'' exampleWorld
     = showCurrentDir (emit (ErrorLine ''Invalid input'') exampleWorld)
   \<and> handleCommand exampleEnv ''   '' exampleWorld
     = showCurrentDir (emit (ErrorLine ''Invalid input'') exampleWorld)"
proof -
  have t1: "tokens ''rn a.txt'' = [''rn'', ''a.txt'']"
    and t2: "tokens ''dir /home'' = [''dir'', ''/home'']"
    and t3: "tokens ''   '' = []"
    by code_simp+
  have h1: "tokens ''rn a.txt'' = [] \<or> (\<exists>command args. tokens ''rn a.txt'' = command # args \<and>
             (command \<notin> set commands \<or> length args < minArgs command))"
    unfolding t1 by (simp add: minArgs_def)
  have h2: "tokens ''dir /home'' = [] \<or> (\<exists>command args. tokens ''dir /home'' = command # args \<and>
             (command \<notin> set commands \<or> length args < minArgs command))"
    unfolding t2 by (simp add: commands_def)
  have h3: "tokens ''   '' = [] \<or> (\<exists>command args. tokens ''   '' = command # args \<and>
             (command \<notin> set commands \<or> length args < minArgs command))"
    unfolding t3 by simp
  show ?thesis
    using invalid_input_unknown_or_too_few [OF h1, of exampleEnv exampleWorld]
      invalid_input_unknown_or_too_few [OF h2, of exampleEnv exampleWorld]
      invalid_input_unknown_or_too_few [OF h3, of exampleEnv exampleWorld]
    by simp
qed

subsection \<open>The current directory\<close>

lemma tokens_nonempty: "t \<in> set (tokens input) \<Longrightarrow> t \<noteq> []"
  by (simp add: tokens_def)

lemma currentDir_handleCommand:
  "currentDir (handleCommand E input w) = currentDir (worldOf (switch E (tokens input) w))"
  by (cases "switch E (tokens input) w")
    (simp_all add: handleCommand_def currentDir_showCurrentDir currentDir_emit callback_def
      split: prod.splits option.splits)

lemma currentDir_cases:
  "currentDir (worldOf (caseLs E w)) = currentDir w"
  "currentDir (worldOf (caseCat E args w)) = currentDir w"
  "currentDir (worldOf (caseAdd E args w)) = currentDir w"
  "currentDir (worldOf (caseRn E args w)) = currentDir w"
  "currentDir (worldOf (caseCp E args w)) = currentDir w"
  "currentDir (worldOf (caseMv E args w)) = currentDir w"
  "currentDir (worldOf (caseRm E args w)) = currentDir w"
  "currentDir (worldOf (caseOs E args w)) = currentDir w"
  "currentDir (worldOf (caseHash E args w)) = currentDir w"
  "currentDir (worldOf (caseCompress E args w)) = currentDir w"
  "currentDir (worldOf (caseDecompress E args w)) = currentDir w"
  "currentDir (worldOf (caseExit E w)) = currentDir w"
  by (simp_all add: caseLs_def caseCat_def caseAdd_def caseRn_def caseCp_def caseMv_def
      caseRm_def caseOs_def caseHash_def caseCompress_def caseDecompress_def caseExit_def
      currentDir_emit Let_def split: sum.splits prod.splits option.splits)

lemma currentDir_switch:
  assumes "\<forall>args. toks \<noteq> ''up'' # args \<and> toks \<noteq> ''cd'' # args"
  shows "currentDir (worldOf (switch E toks w)) = currentDir w"
proof (cases toks)
  case Nil
  then show ?thesis by (simp add: switch_def)
next
  case (Cons command args)
  with assms have "command \<noteq> ''up''" "command \<noteq> ''cd''" by auto
  then show ?thesis
    unfolding Cons switch_def by (simp add: currentDir_cases)
qed

lemma up_never_fails: "\<not> failed (caseUp w)"
  by (simp add: caseUp_def)

lemma cd_failed_keeps_currentDir:
  "failed (caseCd E args w) \<Longrightarrow> currentDir (worldOf (caseCd E args w)) = currentDir w"
  by (auto simp: caseCd_def Let_def split: if_splits sum.splits)

lemma currentDir_failed:
  assumes "failed (switch E toks w)"
  shows "currentDir (worldOf (switch E toks w)) = currentDir w"
proof (cases "\<forall>args. toks \<noteq> ''up'' # args \<and> toks \<noteq> ''cd'' # args")
  case True
  then show ?thesis by (rule currentDir_switch)
next
  case False
  then obtain args where "toks = ''up'' # args \<or> toks = ''cd'' # args" by blast
  then show ?thesis
    using assms up_never_fails cd_failed_keeps_currentDir by (auto simp: switch_cases)
qed

text \<open>
  C9. Only \<open>up\<close> and \<open>cd\<close> change the current directory: after a cycle on any other
  command, known or not, and after any invocation that fails (it throws, or the
  process ends in it), the current directory is what it was.
\<close>

theorem currentDir_changed_only_by_up_and_cd:
  assumes "(\<forall>args. tokens input \<noteq> ''up'' # args \<and> tokens input \<noteq> ''cd'' # args)
           \<or> failed (switch E (tokens input) w)"
  shows "currentDir (handleCommand E input w) = currentDir w"
  using assms currentDir_switch currentDir_failed
  by (auto simp: currentDir_handleCommand)

theorem currentDir_changed_only_by_up_and_cd_witness:
  "currentDir (handleCommand exampleEnv ''ls'' exampleWorld) = currentDir exampleWorld
   \<and> currentDir (handleCommand exampleEnv ''cd nowhere'' exampleWorld) = currentDir exampleWorld"
proof -
  have t: "tokens ''ls'' = [''ls'']"
    by code_simp
  have h1: "(\<forall>args. tokens ''ls'' \<noteq> ''up'' # args \<and> tokens ''ls'' \<noteq> ''cd'' # args)
      \<or> failed (switch exampleEnv (tokens ''ls'') exampleWorld)"
    unfolding t by simp
  have "failed (switch exampleEnv (tokens ''cd nowhere'') exampleWorld)"
    by code_simp
  then have h2: "(\<forall>args. tokens ''cd nowhere'' \<noteq> ''up'' # args
        \<and> tokens ''cd nowhere'' \<noteq> ''cd'' # args)
      \<or> failed (switch exampleEnv (tokens ''cd nowhere'') exampleWorld)"
    by simp
  show ?thesis
    using currentDir_changed_only_by_up_and_cd [OF h1] currentDir_changed_only_by_up_and_cd [OF h2]
    by simp
qed

text \<open>
  C6, at the inputs where the code can be run: \<open>isRootDir\<close> answers yes for \<open>/home\<close>,
  a directory whose parent is the root, so \<open>up\<close> leaves the session in \<open>/home\<close>
  although \<open>path.dirname\<close> gives \<open>/\<close>. From \<open>/home/user\<close> it goes to the parent, and
  at \<open>/\<close> it stays.
\<close>

theorem up_stops_below_the_root:
  "isRootDir ''/home'' \<and> dirname ''/home'' = ''/''
   \<and> currentDir (handleCommand exampleEnv ''up'' (exampleWorld\<lparr>currentDir := ''/home''\<rparr>)) = ''/home''
   \<and> currentDir (handleCommand exampleEnv ''up'' exampleWorld) = ''/home''
   \<and> currentDir (handleCommand exampleEnv ''up'' (exampleWorld\<lparr>currentDir := ''/''\<rparr>)) = ''/''"
  by code_simp

subsection \<open>\<open>cd\<close>\<close>

lemma report_SystemError: "report (SystemError e c) = ''Operation failed''"
  by (cases e) (simp_all add: report_def)

lemma stat_error: "stat cwd fs p = Inl err \<Longrightarrow> report err = ''Operation failed''"
  by (auto simp: stat_def lookupNode_def report_SystemError split: option.splits if_splits)

text \<open>
  C1, as the code has it. A \<open>cd\<close> with an argument whose \<open>fs.stat\<close> fails prints
  \<open>Operation failed\<close>: the system's error goes to the \<open>catch\<close> like any other. When
  the path is there and is not a directory it prints \<open>Invalid input\<close>. In both
  cases nothing else changes.
\<close>

theorem cd_probe_failure_and_non_directory:
  assumes "tokens input = ''cd'' # arg # rest"
  shows "(\<forall>err. stat (processCwd E) (files w) (resolve (processCwd E) [currentDir w, arg]) = Inl err
            \<longrightarrow> handleCommand E input w = showCurrentDir (emit (ErrorLine ''Operation failed'') w))
       \<and> (\<forall>n. stat (processCwd E) (files w) (resolve (processCwd E) [currentDir w, arg]) = Inr n
              \<and> \<not> isDirectory n
            \<longrightarrow> handleCommand E input w = showCurrentDir (emit (ErrorLine ''Invalid input'') w))"
proof -
  have "arg \<in> set (tokens input)"
    using assms by simp
  then have "arg \<noteq> []"
    by (rule tokens_nonempty)
  then have present: "\<not> argMissing (arg # rest) 0"
    by (simp add: argMissing_def)
  show ?thesis
    unfolding assms handleCommand_def switch_cases
    using present by (auto simp: caseCd_def Let_def stat_error report_invalidInput)
qed

theorem cd_probe_failure_and_non_directory_witness:
  "handleCommand exampleEnv ''cd nowhere'' exampleWorld
     = showCurrentDir (emit (ErrorLine ''Operation failed'') exampleWorld)
   \<and> handleCommand exampleEnv ''cd a.txt'' exampleWorld
     = showCurrentDir (emit (ErrorLine ''Invalid input'') exampleWorld)"
proof -
  have t1: "tokens ''cd nowhere'' = ''cd'' # ''nowhere'' # []"
    and t2: "tokens ''cd a.txt'' = ''cd'' # ''a.txt'' # []"
    by code_simp+
  have s1: "stat (processCwd exampleEnv) (files exampleWorld)
      (resolve (processCwd exampleEnv) [currentDir exampleWorld, ''nowhere''])
      = Inl (SystemError ENOENT ''stat'')"
    by code_simp
  have s2: "stat (processCwd exampleEnv) (files exampleWorld)
      (resolve (processCwd exampleEnv) [currentDir exampleWorld, ''a.txt''])
      = Inr (File True True ''a'')"
    by code_simp
  show ?thesis
    using cd_probe_failure_and_non_directory [OF t1, of exampleEnv exampleWorld]
      cd_probe_failure_and_non_directory [OF t2, of exampleEnv exampleWorld] s1 s2
    by simp
qed

text \<open>
  C1 as stated fails where the probe fails: \<open>cd nowhere\<close>, with no \<open>nowhere\<close> in the
  current directory, prints \<open>Operation failed\<close> and not \<open>Invalid input\<close>.
\<close>

theorem cd_probe_failure_counterexample:
  "stat (processCwd exampleEnv) (files exampleWorld)
      (resolve (processCwd exampleEnv) [currentDir exampleWorld, ''nowhere''])
      = Inl (SystemError ENOENT ''stat'')
   \<and> out (handleCommand exampleEnv ''cd nowhere'' exampleWorld)
      = [ErrorLine ''Operation failed'', Log ''You are currently in /home/user'', Prompt]
   \<and> ErrorLine ''Invalid input'' \<notin> set (out (handleCommand exampleEnv ''cd nowhere'' exampleWorld))"
  by code_simp

subsection \<open>\<open>add\<close>\<close>

lemma stat_File:
  assumes "stat cwd fs p = Inr (File r x c)"
  shows "map_of fs (key cwd p) = Some (File r x c)" "\<not> endsWithSlash p"
  using assms by (auto simp: stat_def lookupNode_def split: option.splits if_splits)

lemma writeFile_existing:
  assumes "stat cwd fs p = Inr (File r True c)"
  shows "writeFile cwd fs p d = Inr (AList.update (key cwd p) (File r True d) fs)"
  using stat_File [OF assms]
  by (simp add: writeFile_def openWrite_def setContent_def update_conv')

lemma stat_update:
  "\<not> endsWithSlash p \<Longrightarrow> stat cwd (AList.update (key cwd p) n fs) p = Inr n"
  by (simp add: stat_def lookupNode_def update_conv')

text \<open>
  C10. \<open>add\<close> on a path that \<open>stat\<close> shows as a writable file succeeds, prints only
  the prompt, and leaves that file empty, its permissions as they were.
\<close>

theorem add_truncates_existing_file:
  assumes "tokens input = ''add'' # name # rest"
    and "stat (processCwd E) (files w) (join [currentDir w, name]) = Inr (File r True c)"
  shows "handleCommand E input w
           = showCurrentDir (w\<lparr>files := AList.update (key (processCwd E) (join [currentDir w, name]))
                                          (File r True []) (files w)\<rparr>)
         \<and> stat (processCwd E) (files (handleCommand E input w)) (join [currentDir w, name])
           = Inr (File r True [])"
proof -
  have "name \<in> set (tokens input)"
    using assms(1) by simp
  then have "name \<noteq> []"
    by (rule tokens_nonempty)
  then have "\<not> argMissing (name # rest) 0"
    by (simp add: argMissing_def)
  then have "switch E (tokens input) w
      = Done (w\<lparr>files := AList.update (key (processCwd E) (join [currentDir w, name]))
                                          (File r True []) (files w)\<rparr>)"
    unfolding assms(1) switch_cases
    by (simp add: caseAdd_def writeFile_existing [OF assms(2)])
  then show ?thesis
    using stat_File(2) [OF assms(2)]
    by (simp add: handleCommand_def showCurrentDir_def emit_def stat_update)
qed

theorem add_truncates_existing_file_witness:
  "stat (processCwd exampleEnv) (files exampleWorld) (join [currentDir exampleWorld, ''a.txt''])
     = Inr (File True True ''a'')
   \<and> stat (processCwd exampleEnv) (files (handleCommand exampleEnv ''add a.txt'' exampleWorld))
       (join [currentDir exampleWorld, ''a.txt''])
     = Inr (File True True [])
   \<and> out (handleCommand exampleEnv ''add a.txt'' exampleWorld)
     = [Log ''You are currently in /home/user'', Prompt]"
proof -
  have t: "tokens ''add a.txt'' = ''add'' # ''a.txt'' # []"
    by code_simp
  have s: "stat (processCwd exampleEnv) (files exampleWorld) (join [currentDir exampleWorld, ''a.txt''])
     = Inr (File True True ''a'')"
    by code_simp
  have o: "out (showCurrentDir (exampleWorld\<lparr>files := fs\<rparr>))
     = [Log ''You are currently in /home/user'', Prompt]" for fs
    by (simp add: showCurrentDir_def emit_def exampleWorld_def)
  note th = add_truncates_existing_file [OF t s]
  from th have a: "stat (processCwd exampleEnv)
      (files (handleCommand exampleEnv ''add a.txt'' exampleWorld))
      (join [currentDir exampleWorld, ''a.txt'']) = Inr (File True True [])"
    by (rule conjunct2)
  from th have b: "out (handleCommand exampleEnv ''add a.txt'' exampleWorld)
      = [Log ''You are currently in /home/user'', Prompt]"
    by (simp only: o)
  from s a b show ?thesis
    by (intro conjI)
qed

subsection \<open>\<open>ls\<close>\<close>

text \<open>
  C2, at the inputs where the code can be run. The directories and the files are
  concatenated, directories first, and then sorted together by name: in a
  directory holding the directory \<open>b\<close> and the files \<open>a.txt\<close> and \<open>empty\<close>, the
  file \<open>a.txt\<close> is listed before the directory \<open>b\<close>. The spec's example, where the
  directory's name is also the first name, comes out as the spec has it.
\<close>

theorem ls_sorts_directories_among_files:
  "out (handleCommand exampleEnv ''ls'' exampleWorld)
     = [Table [(''a.txt'', ''file''), (''b'', ''directory''), (''empty'', ''file'')],
        Log ''You are currently in /home/user'', Prompt]
   \<and> listing collate [(''b.txt'', File True True []), (''A'', Dir True), (''z.txt'', File True True [])]
     = [(''A'', ''directory''), (''b.txt'', ''file''), (''z.txt'', ''file'')]"
  by code_simp

subsection \<open>Failures outside the \<open>try\<close>\<close>

text \<open>
  C4, at the inputs where the code can be run. \<open>cp\<close> of a file that is not there
  prints the prompt as if nothing were wrong; then the pipeline's callback throws
  with no \<open>try\<close> around it and the process ends: no error line. \<open>cat\<close> of the
  same file ends the process on the stream's \<open>error\<close> event, before anything is
  printed. \<open>mv\<close>, which rejects a promise the case is waiting for, reports the
  failure and goes on.
\<close>

theorem cp_failure_ends_the_process:
  "status (handleCommand exampleEnv ''cp missing.txt copy.txt'' exampleWorld)
     = Crashed operationFailed
   \<and> out (handleCommand exampleEnv ''cp missing.txt copy.txt'' exampleWorld)
     = [Log ''You are currently in /home/user'', Prompt]
   \<and> status (handleCommand exampleEnv ''cat missing.txt'' exampleWorld)
     = Crashed (SystemError ENOENT ''open'')
   \<and> out (handleCommand exampleEnv ''cat missing.txt'' exampleWorld) = []
   \<and> out (handleCommand exampleEnv ''mv missing.txt copy.txt'' exampleWorld)
     = [ErrorLine ''Operation failed'', Log ''You are currently in /home/user'', Prompt]
   \<and> status (handleCommand exampleEnv ''mv missing.txt copy.txt'' exampleWorld) = Running"
  by code_simp

text \<open>
  C5, at the input where the code can be run: \<open>mv\<close> of a readable file out of a
  directory the user may not change. The copy is made, \<open>unlink\<close> fails, the
  source stays; the command prints nothing, not even the prompt, and the process
  ends on the rejection nobody handles.
\<close>

theorem mv_unlink_failure_is_not_reported:
  "map_of (files (handleCommand exampleEnv ''mv /srv/data.bin moved.bin'' exampleWorld))
      ''/home/user/moved.bin'' = Some (File True True ''xyz'')
   \<and> map_of (files (handleCommand exampleEnv ''mv /srv/data.bin moved.bin'' exampleWorld))
      ''/srv/data.bin'' = Some (File True False ''xyz'')
   \<and> out (handleCommand exampleEnv ''mv /srv/data.bin moved.bin'' exampleWorld) = []
   \<and> status (handleCommand exampleEnv ''mv /srv/data.bin moved.bin'' exampleWorld)
      = Crashed (SystemError EACCES ''unlink'')"
  by code_simp

subsection \<open>\<open>hash\<close>\<close>

text \<open>The digests of three short messages, computed round by round.\<close>

lemma replicate_numeral: "replicate (numeral k) x = x # replicate (pred_numeral k) x"
  by (simp add: numeral_eq_Suc)

lemma blocks256_Nil: "blocks256 hs [] = hs"
  by (simp add: blocks256.simps)

lemma blocks256_Cons:
  "blocks256 hs (b # bs) = blocks256 (compress256 hs (take 64 (b # bs))) (drop 64 (b # bs))"
  by (subst blocks256.simps) simp

lemmas sha256_eval =
  sha256_def pad256_def bytesOf_def blocks256_Nil blocks256_Cons compress256_def
  K256_def H256_def nextWord_def
  sigma0_def sigma1_def Sigma0_def Sigma1_def Ch_def Maj_def rotr_def shr_def add32_def
  replicate_numeral Let_def

lemma sha256_empty:
  "sha256 [] = [227, 176, 196, 66, 152, 252, 28, 20, 154, 251, 244, 200, 153, 111, 185,
      36, 39, 174, 65, 228, 100, 155, 147, 76, 164, 149, 153, 27, 120, 82, 184, 85]"
  by (simp add: sha256_eval)

lemma hex_sha256_empty:
  "hex (sha256 []) = ''e3b0c44298fc1c149afbf4c8996fb92427ae41e4649b934ca495991b7852b855''"
  unfolding sha256_empty by (simp add: hex_def hexDigit_def)

lemma hex_sha256_a:
  "hex (sha256 ''a'') = ''ca978112ca1bbdcafac231b39a23dc4da786eff8147c4e72b9807785afee48bb''"
  by (simp add: sha256_eval hex_def hexDigit_def)

lemma hex_sha256_aa:
  "hex (sha256 ''aa'') = ''961b6dd3ede3cb8ecbaacbd68de040cd78eb2ed5889130cceb4c49268ea4d506''"
  by (simp add: sha256_eval hex_def hexDigit_def)

text \<open>What \<open>hash\<close> prints for a file that can be read.\<close>

lemma chunksOf_Nil: "chunksOf n [] = []"
  by (simp add: chunksOf.simps)

lemma chunksOf_one: "d \<noteq> [] \<Longrightarrow> length d \<le> n \<Longrightarrow> chunksOf n d = [d]"
  by (subst chunksOf.simps) (cases d; auto simp: chunksOf_Nil)

lemma piped_twice_one: "piped 2 [d] = d @ d"
  by (simp add: piped_def numeral_2_eq_2)

lemma piped_Nil: "piped n [] = []"
  by (simp add: piped_def)

lemma hash_readable:
  assumes "tokens input = ''hash'' # name # rest"
    and "openRead (processCwd E) (files w) (resolve (processCwd E) [currentDir w, name]) = Inr d"
  shows "handleCommand E input w
           = showCurrentDir (emit (Log (hex (sha256 (piped 2 (chunksOf 65536 d))))) w)"
proof -
  have "name \<in> set (tokens input)"
    using assms(1) by simp
  then have "name \<noteq> []"
    by (rule tokens_nonempty)
  then have "\<not> argMissing (name # rest) 0"
    by (simp add: argMissing_def)
  then show ?thesis
    unfolding assms(1) handleCommand_def switch_cases
    by (simp add: caseHash_def assms(2))
qed

text \<open>
  C8. \<open>hash\<close> of a readable file of zero bytes prints the SHA-256 digest of the
  empty message, \<open>e3b0c442...7852b855\<close>, and then the prompt: the stream ends with
  no chunk, so piping it twice writes nothing twice.
\<close>

theorem hash_of_empty_file:
  assumes "tokens input = ''hash'' # name # rest"
    and "openRead (processCwd E) (files w) (resolve (processCwd E) [currentDir w, name]) = Inr []"
  shows "handleCommand E input w
           = showCurrentDir
               (emit (Log ''e3b0c44298fc1c149afbf4c8996fb92427ae41e4649b934ca495991b7852b855'') w)"
  using hash_readable [OF assms] by (simp only: chunksOf_Nil piped_Nil hex_sha256_empty)

theorem hash_of_empty_file_witness:
  "handleCommand exampleEnv ''hash empty'' exampleWorld
     = showCurrentDir
         (emit (Log ''e3b0c44298fc1c149afbf4c8996fb92427ae41e4649b934ca495991b7852b855'')
            exampleWorld)"
proof -
  have t: "tokens ''hash empty'' = ''hash'' # ''empty'' # []"
    by code_simp
  have s: "openRead (processCwd exampleEnv) (files exampleWorld)
      (resolve (processCwd exampleEnv) [currentDir exampleWorld, ''empty'']) = Inr []"
    by code_simp
  show ?thesis
    using hash_of_empty_file [OF t s] .
qed

text \<open>
  A file that is not empty and fits in one chunk reaches the hash twice over.
\<close>

lemma hash_small_file:
  assumes "tokens input = ''hash'' # name # rest"
    and "openRead (processCwd E) (files w) (resolve (processCwd E) [currentDir w, name]) = Inr d"
    and "d \<noteq> []" and "length d \<le> 65536"
  shows "handleCommand E input w = showCurrentDir (emit (Log (hex (sha256 (d @ d)))) w)"
  using hash_readable [OF assms(1,2)] by (simp only: chunksOf_one [OF assms(3,4)] piped_twice_one)

text \<open>
  C3, at the input where the code can be run: for the file \<open>a.txt\<close>, whose content
  is the one byte \<open>a\<close>, \<open>hash\<close> prints the digest of \<open>aa\<close>, which is not the digest
  of \<open>a\<close>.
\<close>

theorem hash_digests_every_chunk_twice:
  "handleCommand exampleEnv ''hash a.txt'' exampleWorld
     = showCurrentDir
         (emit (Log ''961b6dd3ede3cb8ecbaacbd68de040cd78eb2ed5889130cceb4c49268ea4d506'')
            exampleWorld)
   \<and> hex (sha256 ''aa'') = ''961b6dd3ede3cb8ecbaacbd68de040cd78eb2ed5889130cceb4c49268ea4d506''
   \<and> hex (sha256 ''a'') = ''ca978112ca1bbdcafac231b39a23dc4da786eff8147c4e72b9807785afee48bb''"
proof -
  have t: "tokens ''hash a.txt'' = ''hash'' # ''a.txt'' # []"
    by code_simp
  have s: "openRead (processCwd exampleEnv) (files exampleWorld)
      (resolve (processCwd exampleEnv) [currentDir exampleWorld, ''a.txt'']) = Inr ''a''"
    by code_simp
  have "handleCommand exampleEnv ''hash a.txt'' exampleWorld
      = showCurrentDir (emit (Log (hex (sha256 (''a'' @ ''a'')))) exampleWorld)"
    by (rule hash_small_file [OF t s]) simp_all
  then show ?thesis
    by (simp only: append.simps hex_sha256_aa hex_sha256_a simp_thms)
qed

end
